theory Spec2Isabelle
  imports Main
begin

section \<open>MeBus: a runtime validated message bus on the browser's event system\<close>

text \<open>
  The development embeds \<^verbatim>\<open>src/index.ts\<close>: the class \<^verbatim>\<open>MeBus\<close> with its constructor,
  \<^verbatim>\<open>subscribe\<close> and \<^verbatim>\<open>publish\<close>, and the guard \<^verbatim>\<open>isCustomEvent\<close>. The class calls into two
  collaborators that live outside the repository: a validation library (zod's
  \<^verbatim>\<open>safeParse\<close>) and the browser (\<^verbatim>\<open>window.addEventListener\<close>, \<^verbatim>\<open>window.dispatchEvent\<close>,
  \<^verbatim>\<open>AbortController\<close>, \<^verbatim>\<open>CustomEvent\<close>). Both are modelled as far as the class observes them.
  Mutation of the browser state is explicit state passing; a \<^verbatim>\<open>throw\<close> is a value.
\<close>

subsection \<open>Exceptions\<close>

text \<open>
  \<^verbatim>\<open>Error\<close> carries its message. A \<^verbatim>\<open>TypeError\<close> is what JavaScript raises when a value that
  is not a function is called; its message depends on the engine and is left out.
\<close>

datatype exn = Error string | TypeError

subsection \<open>Payloads\<close>

text \<open>
  A payload is a JavaScript value: \<^verbatim>\<open>undefined\<close>, \<^verbatim>\<open>null\<close>, or a value of an arbitrary type
  \<open>'v\<close> (numbers, strings, objects). Payloads are immutable.
\<close>

datatype 'v jsvalue = Undefined | Null | Value 'v

subsection \<open>The validation library\<close>

text \<open>
  An issue of a failed validation has a \<^verbatim>\<open>message\<close>. \<^verbatim>\<open>safeParse\<close> returns either
  \<^verbatim>\<open>{ success: true, data }\<close> or \<^verbatim>\<open>{ success: false, error }\<close>, where \<^verbatim>\<open>error.errors\<close>
  is the list of issues. A schema is the function its \<^verbatim>\<open>safeParse\<close> method computes.
\<close>

datatype ZodIssue = ZodIssue (message: string)

datatype 'v SafeParseReturnType =
    SafeParseSuccess "'v jsvalue"
  | SafeParseError "ZodIssue list"

type_synonym 'v ZodSchema = "'v jsvalue \<Rightarrow> 'v SafeParseReturnType"

text \<open>\<^verbatim>\<open>Array.prototype.join\<close> on a list of strings.\<close>

fun join :: "string \<Rightarrow> string list \<Rightarrow> string" where
  "join sep [] = []"
| "join sep [x] = x"
| "join sep (x # y # ys) = x @ sep @ join sep (y # ys)"

definition newline :: string where
  "newline = [CHR 0x0A]"

subsection \<open>The schema registry and property reads on it\<close>

text \<open>
  \<^verbatim>\<open>EventSchema = Record<string, z.Schema>\<close>: the own properties of the registry object are a
  map from event names to schemas.
\<close>

type_synonym 'v EventSchema = "string \<rightharpoonup> 'v ZodSchema"

record 'v MeBus =
  eventSchema :: "'v EventSchema"

text \<open>
  The class reads the registry with \<^verbatim>\<open>this.eventSchema[type]\<close>. A property read on a JavaScript
  object looks at the object's own properties first and then at its prototype chain; for an
  object written as a literal (as in the README and in the example file) the chain is
  \<^verbatim>\<open>Object.prototype\<close>, whose property names are listed here. Every one of them holds a
  function or an object, none of which has a \<^verbatim>\<open>safeParse\<close> method. A name found nowhere
  reads as \<^verbatim>\<open>undefined\<close> (\<open>Missing\<close>).
\<close>

definition Object_prototype :: "string list" where
  "Object_prototype =
     [''constructor'', ''__defineGetter__'', ''__defineSetter__'', ''hasOwnProperty'',
      ''__lookupGetter__'', ''__lookupSetter__'', ''isPrototypeOf'', ''propertyIsEnumerable'',
      ''toString'', ''valueOf'', ''__proto__'', ''toLocaleString'']"

datatype 'v property = Missing | OwnSchema "'v ZodSchema" | Inherited

definition get_property :: "'v EventSchema \<Rightarrow> string \<Rightarrow> 'v property" where
  "get_property obj key =
     (case obj key of
        Some s \<Rightarrow> OwnSchema s
      | None \<Rightarrow> if key \<in> set Object_prototype then Inherited else Missing)"

text \<open>The test \<^verbatim>\<open>if (!schema)\<close>: only \<^verbatim>\<open>undefined\<close> is falsy among the values a read can give.\<close>

fun truthy :: "'v property \<Rightarrow> bool" where
  "truthy Missing = False"
| "truthy (OwnSchema s) = True"
| "truthy Inherited = True"

text \<open>The call \<^verbatim>\<open>schema.safeParse(payload)\<close> on the value that was read.\<close>

fun safeParse :: "'v property \<Rightarrow> 'v jsvalue \<Rightarrow> exn + 'v SafeParseReturnType" where
  "safeParse (OwnSchema s) payload = Inr (s payload)"
| "safeParse Inherited payload = Inl TypeError"
| "safeParse Missing payload = Inl TypeError"

subsection \<open>Events\<close>

text \<open>An \<^verbatim>\<open>Event\<close> has a type; a \<^verbatim>\<open>CustomEvent\<close> also has a \<^verbatim>\<open>detail\<close>.\<close>

datatype 'v event =
    Event (event_type: string)
  | CustomEvent (event_type: string) (detail: "'v jsvalue")

text \<open>
  The constructor call \<^verbatim>\<open>new CustomEvent(type, { detail: payload })\<close>. The second argument is a
  dictionary of Web IDL, declared with \<^verbatim>\<open>any detail = null\<close>: a member whose value is
  \<^verbatim>\<open>undefined\<close> counts as not given and takes its default. So the event stores every payload as
  it is, except \<^verbatim>\<open>undefined\<close>, for which it stores \<^verbatim>\<open>null\<close>.
\<close>

fun new_CustomEvent :: "string \<Rightarrow> 'v jsvalue \<Rightarrow> 'v event" where
  "new_CustomEvent ty Undefined = CustomEvent ty Null"
| "new_CustomEvent ty Null = CustomEvent ty Null"
| "new_CustomEvent ty (Value x) = CustomEvent ty (Value x)"

fun isCustomEvent :: "'v event \<Rightarrow> bool" where
  "isCustomEvent (CustomEvent ty d) = True"
| "isCustomEvent (Event ty) = False"

subsection \<open>Handlers\<close>

text \<open>
  The function a caller passes to \<^verbatim>\<open>subscribe\<close>. It is known by an identifier, under which each
  of its invocations is logged together with the argument it received. Its body may invoke
  unsubscribe functions that calls of \<^verbatim>\<open>subscribe\<close> have returned (its own among them), and it
  may throw. These are the handlers the development speaks about: a handler that itself calls
  \<^verbatim>\<open>publish\<close> or \<^verbatim>\<open>subscribe\<close>, or that changes the payload it is given, is not among them, and
  a statement below that mentions handlers is a statement about handlers of this kind.
\<close>

datatype stmt = CallUnsubscribe nat | Throw exn

record handler =
  hid :: nat
  body :: "stmt list"

subsection \<open>The browser: the listener list of \<^verbatim>\<open>window\<close> and the abort controllers\<close>

text \<open>
  An entry of the event listener list of \<^verbatim>\<open>window\<close>, as \<^verbatim>\<open>subscribe\<close> creates it: the event type,
  the arrow function (which has captured \<^verbatim>\<open>schema\<close> and \<^verbatim>\<open>listener\<close>), and the signal given in
  the options. An \<^verbatim>\<open>AbortController\<close> is known by its index in the list of controllers, which
  holds the \<^verbatim>\<open>aborted\<close> flag of each signal.
\<close>

record 'v EventListener =
  listener_type :: string
  captured_schema :: "'v property"
  captured_listener :: handler
  listener_signal :: nat

record 'v window =
  listeners :: "'v EventListener list"
  controllers :: "bool list"
  calls :: "(nat \<times> 'v jsvalue) list"
  reported :: "exn list"

definition empty_window :: "'v window" where
  "empty_window = \<lparr>listeners = [], controllers = [], calls = [], reported = []\<rparr>"

text \<open>\<^verbatim>\<open>new AbortController()\<close>: a fresh controller whose signal is not aborted.\<close>

definition new_AbortController :: "'v window \<Rightarrow> nat \<times> 'v window" where
  "new_AbortController w = (length (controllers w), w\<lparr>controllers := controllers w @ [False]\<rparr>)"

definition aborted :: "nat \<Rightarrow> 'v window \<Rightarrow> bool" where
  "aborted k w = (k < length (controllers w) \<and> controllers w ! k)"

text \<open>
  \<^verbatim>\<open>abortController.abort()\<close>: nothing happens when the signal is aborted already; otherwise the
  flag is set and the abort steps run, which remove the listener registered with this signal.
\<close>

definition abort :: "nat \<Rightarrow> 'v window \<Rightarrow> 'v window" where
  "abort k w =
     (if k < length (controllers w) \<and> \<not> controllers w ! k
      then w\<lparr>controllers := (controllers w)[k := True],
             listeners := filter (\<lambda>l. listener_signal l \<noteq> k) (listeners w)\<rparr>
      else w)"

text \<open>
  \<^verbatim>\<open>window.addEventListener(type, callback, { signal })\<close>: nothing is added for an aborted
  signal; otherwise the listener goes to the end of the list. (The arrow function is a new
  object on every call of \<^verbatim>\<open>subscribe\<close>, so the browser never finds it in the list already.)
\<close>

definition addEventListener ::
  "string \<Rightarrow> 'v property \<Rightarrow> handler \<Rightarrow> nat \<Rightarrow> 'v window \<Rightarrow> 'v window" where
  "addEventListener ty schema listener signal w =
     (if aborted signal w then w
      else w\<lparr>listeners := listeners w @
               [\<lparr>listener_type = ty, captured_schema = schema,
                 captured_listener = listener, listener_signal = signal\<rparr>]\<rparr>)"

subsection \<open>Running a handler\<close>

fun run_body :: "stmt list \<Rightarrow> 'v window \<Rightarrow> exn option \<times> 'v window" where
  "run_body [] w = (None, w)"
| "run_body (CallUnsubscribe k # ss) w = run_body ss (abort k w)"
| "run_body (Throw x # ss) w = (Some x, w)"

definition call_listener ::
  "handler \<Rightarrow> 'v jsvalue \<Rightarrow> 'v window \<Rightarrow> exn option \<times> 'v window" where
  "call_listener listener d w = run_body (body listener) (w\<lparr>calls := calls w @ [(hid listener, d)]\<rparr>)"

subsection \<open>The arrow function that \<^verbatim>\<open>subscribe\<close> registers\<close>

text \<open>
  \<^verbatim>\<open>
  (e) => {
    if (!isCustomEvent(e)) return;
    const payload = e.detail;
    const validation = schema.safeParse(payload);
    if (!validation.success) {
      throw new Error(validation.error.errors.map((e) => e.message).join("\n"));
    }
    listener(validation.data);
  }
  \<close>
  The result is the exception that leaves the function, if any, and the state it leaves behind.
\<close>

definition listener_closure ::
  "'v property \<Rightarrow> handler \<Rightarrow> 'v event \<Rightarrow> 'v window \<Rightarrow> exn option \<times> 'v window" where
  "listener_closure schema listener e w =
     (if \<not> isCustomEvent e then (None, w)
      else
        let payload = detail e in
        case safeParse schema payload of
          Inl x \<Rightarrow> (Some x, w)
        | Inr (SafeParseError issues) \<Rightarrow> (Some (Error (join newline (map message issues))), w)
        | Inr (SafeParseSuccess d) \<Rightarrow> call_listener listener d w)"

subsection \<open>\<^verbatim>\<open>window.dispatchEvent\<close>\<close>

text \<open>
  The steps of the DOM standard for an event dispatched at \<^verbatim>\<open>window\<close> (``invoke'' and ``inner
  invoke''): the browser walks a clone of the listener list taken when the dispatch starts. A
  listener whose type is not the event's is skipped, and so is one whose \<^verbatim>\<open>removed\<close> flag has
  been set in the meantime; the flag is set when the listener is taken out of the list of
  \<^verbatim>\<open>window\<close>, which is what the abort steps of its signal do. An exception that leaves a
  callback is reported and the walk goes on: \<^verbatim>\<open>dispatchEvent\<close> itself does not throw.
\<close>

definition removed :: "'v EventListener \<Rightarrow> 'v window \<Rightarrow> bool" where
  "removed l w = (listener_signal l \<notin> set (map listener_signal (listeners w)))"

definition report :: "exn option \<times> 'v window \<Rightarrow> 'v window" where
  "report r = (case r of (None, w) \<Rightarrow> w | (Some x, w) \<Rightarrow> w\<lparr>reported := reported w @ [x]\<rparr>)"

fun inner_invoke :: "'v event \<Rightarrow> 'v EventListener list \<Rightarrow> 'v window \<Rightarrow> 'v window" where
  "inner_invoke e [] w = w"
| "inner_invoke e (l # ls) w =
     inner_invoke e ls
       (if listener_type l = event_type e \<and> \<not> removed l w
        then report (listener_closure (captured_schema l) (captured_listener l) e w)
        else w)"

definition dispatchEvent :: "'v event \<Rightarrow> 'v window \<Rightarrow> 'v window" where
  "dispatchEvent e w = inner_invoke e (listeners w) w"

subsection \<open>The class \<^verbatim>\<open>MeBus\<close>\<close>

text \<open>
  The constructor throws where \<^verbatim>\<open>typeof window === "undefined"\<close> and stores the registry
  otherwise. The global \<^verbatim>\<open>window\<close> is an option: \<open>None\<close> outside a browser.
\<close>

definition new_MeBus :: "'v window option \<Rightarrow> 'v EventSchema \<Rightarrow> exn + 'v MeBus" where
  "new_MeBus global_window schema =
     (case global_window of
        None \<Rightarrow> Inl (Error ''[MeBus] MeBus is only available in the browser'')
      | Some w \<Rightarrow> Inr \<lparr>eventSchema = schema\<rparr>)"

definition no_schema_found :: "string \<Rightarrow> exn" where
  "no_schema_found ty = Error (''[MeBus] No schema found for event: '' @ ty)"

text \<open>
  A method runs with \<^verbatim>\<open>this\<close> and may assign to its fields, so it is a function of the object
  and the browser state that returns both, next to its result. \<open>MeBus_subscribe\<close> is the
  method \<^verbatim>\<open>subscribe(type, listener)\<close>. The function it returns,
  \<^verbatim>\<open>() => abortController.abort()\<close>, is represented by the controller it has captured.
\<close>

definition MeBus_subscribe ::
  "'v MeBus \<Rightarrow> string \<Rightarrow> handler \<Rightarrow> 'v window \<Rightarrow> (exn + nat) \<times> 'v MeBus \<times> 'v window" where
  "MeBus_subscribe this ty listener w =
     (let schema = get_property (eventSchema this) ty in
      if \<not> truthy schema then (Inl (no_schema_found ty), this, w)
      else
        let (abortController, w1) = new_AbortController w;
            w2 = addEventListener ty schema listener abortController w1
        in (Inr abortController, this, w2))"

text \<open>
  Invoking the returned function. It is an arrow function written inside the method, so
  \<^verbatim>\<open>this\<close> is in its scope; its body is the call \<^verbatim>\<open>abortController.abort()\<close>.
\<close>

definition MeBus_unsubscribe :: "'v MeBus \<Rightarrow> nat \<Rightarrow> 'v window \<Rightarrow> 'v MeBus \<times> 'v window" where
  "MeBus_unsubscribe this abortController w = (this, abort abortController w)"

text \<open>The method \<^verbatim>\<open>publish(type, payload)\<close>: the exception thrown, if any, and what it leaves behind.\<close>

definition MeBus_publish ::
  "'v MeBus \<Rightarrow> string \<Rightarrow> 'v jsvalue \<Rightarrow> 'v window \<Rightarrow> exn option \<times> 'v MeBus \<times> 'v window" where
  "MeBus_publish this ty payload w =
     (let schema = get_property (eventSchema this) ty in
      if \<not> truthy schema then (Some (no_schema_found ty), this, w)
      else
        case safeParse schema payload of
          Inl x \<Rightarrow> (Some x, this, w)
        | Inr (SafeParseError issues) \<Rightarrow>
            (Some (Error (join newline (map message issues))), this, w)
        | Inr (SafeParseSuccess d) \<Rightarrow>
            (None, this, dispatchEvent (new_CustomEvent ty payload) w))"

text \<open>
  What a caller observes of a call: the result and the browser state. (The arrow function that
  \<^verbatim>\<open>subscribe\<close> registers refers to \<^verbatim>\<open>schema\<close>, \<^verbatim>\<open>listener\<close> and \<^verbatim>\<open>isCustomEvent\<close> only, which is
  why \<open>listener_closure\<close> and \<open>dispatchEvent\<close> have no object among their arguments.)
\<close>

definition subscribe ::
  "'v MeBus \<Rightarrow> string \<Rightarrow> handler \<Rightarrow> 'v window \<Rightarrow> (exn + nat) \<times> 'v window" where
  "subscribe this ty listener w =
     (case MeBus_subscribe this ty listener w of (result, this', w') \<Rightarrow> (result, w'))"

definition unsubscribe :: "nat \<Rightarrow> 'v window \<Rightarrow> 'v window" where
  "unsubscribe abortController w = abort abortController w"

definition publish ::
  "'v MeBus \<Rightarrow> string \<Rightarrow> 'v jsvalue \<Rightarrow> 'v window \<Rightarrow> exn option \<times> 'v window" where
  "publish this ty payload w =
     (case MeBus_publish this ty payload w of (thrown, this', w') \<Rightarrow> (thrown, w'))"

subsection \<open>Sequences of calls on one bus\<close>

text \<open>
  A call takes the object and the browser state as it finds them and hands on the object and
  the browser state that the method (or the unsubscribe function) returns.
\<close>

datatype 'v call = Subscribe string handler | Publish string "'v jsvalue" | Unsubscribe nat

fun exec_call :: "'v MeBus \<times> 'v window \<Rightarrow> 'v call \<Rightarrow> 'v MeBus \<times> 'v window" where
  "exec_call (this, w) (Subscribe ty listener) = snd (MeBus_subscribe this ty listener w)"
| "exec_call (this, w) (Publish ty payload) = snd (MeBus_publish this ty payload w)"
| "exec_call (this, w) (Unsubscribe k) = MeBus_unsubscribe this k w"

definition exec_calls :: "'v call list \<Rightarrow> 'v MeBus \<times> 'v window \<Rightarrow> 'v MeBus \<times> 'v window" where
  "exec_calls cs st = foldl exec_call st cs"

subsection \<open>Notions used to state the properties\<close>

text \<open>The identifiers of the handlers subscribed to a name, in the order of their subscription.\<close>

definition handlers_for :: "string \<Rightarrow> 'v window \<Rightarrow> nat list" where
  "handlers_for n w =
     map (\<lambda>l. hid (captured_listener l)) (filter (\<lambda>l. listener_type l = n) (listeners w))"

text \<open>The logged invocations of one handler.\<close>

definition calls_of :: "nat \<Rightarrow> 'v window \<Rightarrow> (nat \<times> 'v jsvalue) list" where
  "calls_of h w = filter (\<lambda>c. fst c = h) (calls w)"




text \<open>
  Every listener on \<^verbatim>\<open>window\<close> has been registered by \<^verbatim>\<open>subscribe\<close> of this bus: it has captured
  what the registry of the bus gives for its type.
\<close>

definition listeners_of_bus :: "'v MeBus \<Rightarrow> 'v window \<Rightarrow> bool" where
  "listeners_of_bus this w =
     (\<forall>l \<in> set (listeners w).
        captured_schema l = get_property (eventSchema this) (listener_type l))"

text \<open>
  What holds of the browser state however the class is used: every registered listener has a
  signal of its own, which belongs to an existing controller that has not been aborted.
\<close>

definition wf_window :: "'v window \<Rightarrow> bool" where
  "wf_window w =
     (distinct (map listener_signal (listeners w)) \<and>
      (\<forall>l \<in> set (listeners w).
         listener_signal l < length (controllers w) \<and> \<not> controllers w ! listener_signal l))"

subsection \<open>A concrete registry\<close>

text \<open>
  Payloads built from numbers and strings, and four schemas: \<^verbatim>\<open>z.number()\<close>,
  \<^verbatim>\<open>z.number().max(10).multipleOf(2)\<close>, which reports one issue per violated constraint,
  \<^verbatim>\<open>z.string().transform((s) => s.length)\<close>, whose decoded value differs from its input, and
  \<^verbatim>\<open>z.void()\<close>, the schema of an event without a payload, which accepts \<^verbatim>\<open>undefined\<close> only.
  \<open>Num i\<close> stands for the number \<open>i\<close> where \<open>i\<close> is an integer of magnitude below \<open>2\<^sup>5\<^sup>3\<close>, the
  integers that a JavaScript number holds exactly; the schemas are meant for these, and the
  statements below use them at small values only. \<open>Str s\<close> is the string of the characters
  of \<open>s\<close>.
\<close>

datatype prim = Num int | Str string

abbreviation JNumber :: "int \<Rightarrow> prim jsvalue" where
  "JNumber i \<equiv> Value (Num i)"

abbreviation JString :: "string \<Rightarrow> prim jsvalue" where
  "JString s \<equiv> Value (Str s)"

fun z_number :: "prim ZodSchema" where
  "z_number (Value (Num i)) = SafeParseSuccess (JNumber i)"
| "z_number (Value (Str s)) = SafeParseError [ZodIssue ''Expected number, received string'']"
| "z_number Null = SafeParseError [ZodIssue ''Expected number, received null'']"
| "z_number Undefined = SafeParseError [ZodIssue ''Required'']"

fun z_number_max10_even :: "prim ZodSchema" where
  "z_number_max10_even (Value (Num i)) =
     (let issues =
        (if i \<le> 10 then [] else [ZodIssue ''Number must be less than or equal to 10'']) @
        (if i mod 2 = 0 then [] else [ZodIssue ''Number must be a multiple of 2''])
      in if issues = [] then SafeParseSuccess (JNumber i) else SafeParseError issues)"
| "z_number_max10_even (Value (Str s)) =
     SafeParseError [ZodIssue ''Expected number, received string'']"
| "z_number_max10_even Null = SafeParseError [ZodIssue ''Expected number, received null'']"
| "z_number_max10_even Undefined = SafeParseError [ZodIssue ''Required'']"

fun z_string_length :: "prim ZodSchema" where
  "z_string_length (Value (Str s)) = SafeParseSuccess (JNumber (int (length s)))"
| "z_string_length (Value (Num i)) =
     SafeParseError [ZodIssue ''Expected string, received number'']"
| "z_string_length Null = SafeParseError [ZodIssue ''Expected string, received null'']"
| "z_string_length Undefined = SafeParseError [ZodIssue ''Required'']"

fun z_void :: "prim ZodSchema" where
  "z_void Undefined = SafeParseSuccess Undefined"
| "z_void Null = SafeParseError [ZodIssue ''Expected void, received null'']"
| "z_void (Value (Num i)) = SafeParseError [ZodIssue ''Expected void, received number'']"
| "z_void (Value (Str s)) = SafeParseError [ZodIssue ''Expected void, received string'']"

definition example_schema :: "prim EventSchema" where
  "example_schema =
     [''order'' \<mapsto> z_number, ''amount'' \<mapsto> z_number_max10_even,
      ''name'' \<mapsto> z_string_length, ''logout'' \<mapsto> z_void]"

definition example_bus :: "prim MeBus" where
  "example_bus = \<lparr>eventSchema = example_schema\<rparr>"

definition h1 :: handler where
  "h1 = \<lparr>hid = 1, body = []\<rparr>"

definition h2 :: handler where
  "h2 = \<lparr>hid = 2, body = []\<rparr>"

text \<open>A handler that, when invoked, calls the unsubscribe function of the second subscription.\<close>

definition h_cancel :: handler where
  "h_cancel = \<lparr>hid = 3, body = [CallUnsubscribe 1]\<rparr>"

definition after_subscribe :: "string \<Rightarrow> handler \<Rightarrow> prim window \<Rightarrow> prim window" where
  "after_subscribe n f w = snd (subscribe example_bus n f w)"

definition one_subscriber :: "prim window" where
  "one_subscriber = after_subscribe ''order'' h1 empty_window"

definition two_subscribers :: "prim window" where
  "two_subscribers = after_subscribe ''order'' h2 (after_subscribe ''order'' h1 empty_window)"






section \<open>Auxiliary facts\<close>

subsection \<open>The methods as their callers observe them\<close>

lemma subscribe_unfold:
  "subscribe this ty listener w =
     (let schema = get_property (eventSchema this) ty in
      if \<not> truthy schema then (Inl (no_schema_found ty), w)
      else
        let (abortController, w1) = new_AbortController w;
            w2 = addEventListener ty schema listener abortController w1
        in (Inr abortController, w2))"
  by (simp add: subscribe_def MeBus_subscribe_def Let_def split: prod.splits)

lemma publish_unfold:
  "publish this ty payload w =
     (let schema = get_property (eventSchema this) ty in
      if \<not> truthy schema then (Some (no_schema_found ty), w)
      else
        case safeParse schema payload of
          Inl x \<Rightarrow> (Some x, w)
        | Inr (SafeParseError issues) \<Rightarrow> (Some (Error (join newline (map message issues))), w)
        | Inr (SafeParseSuccess d) \<Rightarrow> (None, dispatchEvent (new_CustomEvent ty payload) w))"
  by (simp add: publish_def MeBus_publish_def Let_def split: sum.splits SafeParseReturnType.splits)

lemma MeBus_subscribe_this: "fst (snd (MeBus_subscribe this ty listener w)) = this"
  by (simp add: MeBus_subscribe_def Let_def split: prod.splits)

lemma MeBus_publish_this: "fst (snd (MeBus_publish this ty payload w)) = this"
  by (simp add: MeBus_publish_def Let_def split: sum.splits SafeParseReturnType.splits)

lemma MeBus_unsubscribe_this: "fst (MeBus_unsubscribe this k w) = this"
  by (simp add: MeBus_unsubscribe_def)

lemma exec_call_window [simp]:
  "snd (exec_call (this, w) (Subscribe ty listener)) = snd (subscribe this ty listener w)"
  "snd (exec_call (this, w) (Publish ty payload)) = snd (publish this ty payload w)"
  "snd (exec_call (this, w) (Unsubscribe k)) = unsubscribe k w"
  by (simp_all add: subscribe_def publish_def unsubscribe_def MeBus_unsubscribe_def
      split: prod.splits)

lemma exec_call_this: "fst (exec_call st c) = fst st"
  by (cases st; cases c)
     (simp_all add: MeBus_subscribe_this MeBus_publish_this MeBus_unsubscribe_this)

lemma exec_call_pair: "exec_call (this, w) c = (this, snd (exec_call (this, w) c))"
  using exec_call_this [of "(this, w)" c] by (cases "exec_call (this, w) c") simp

declare exec_call.simps [simp del]


subsection \<open>Aborting a controller\<close>

lemma abort_calls [simp]: "calls (abort k w) = calls w"
  by (simp add: abort_def)

lemma abort_reported [simp]: "reported (abort k w) = reported w"
  by (simp add: abort_def)

lemma abort_length [simp]: "length (controllers (abort k w)) = length (controllers w)"
  by (simp add: abort_def)

lemma abort_listeners:
  "listeners (abort k w) =
     (if k < length (controllers w) \<and> \<not> controllers w ! k
      then filter (\<lambda>l. listener_signal l \<noteq> k) (listeners w) else listeners w)"
  by (simp add: abort_def)

lemma abort_controllers:
  "controllers (abort k w) =
     (if k < length (controllers w) \<and> \<not> controllers w ! k
      then (controllers w)[k := True] else controllers w)"
  by (simp add: abort_def)

lemma abort_listeners_subset: "set (listeners (abort k w)) \<subseteq> set (listeners w)"
  by (auto simp: abort_listeners)

lemma abort_keeps:
  "l \<in> set (listeners w) \<Longrightarrow> listener_signal l \<noteq> k \<Longrightarrow> l \<in> set (listeners (abort k w))"
  by (simp add: abort_listeners)

lemma abort_twice: "abort k (abort k w) = abort k w"
  by (simp add: abort_def)


subsection \<open>Running a handler\<close>

lemma run_body_calls [simp]: "calls (snd (run_body ss w)) = calls w"
  by (induction ss w rule: run_body.induct) simp_all

lemma run_body_subset: "set (listeners (snd (run_body ss w))) \<subseteq> set (listeners w)"
proof (induction ss w rule: run_body.induct)
  case (2 k ss w)
  then show ?case using abort_listeners_subset [of k w] by auto
qed simp_all

lemma run_body_keeps:
  "l \<in> set (listeners w) \<Longrightarrow> CallUnsubscribe (listener_signal l) \<notin> set ss \<Longrightarrow>
   l \<in> set (listeners (snd (run_body ss w)))"
proof (induction ss w rule: run_body.induct)
  case (2 k ss w)
  then show ?case by (auto intro: abort_keeps)
qed simp_all


lemma call_listener_calls [simp]:
  "calls (snd (call_listener f d w)) = calls w @ [(hid f, d)]"
  by (simp add: call_listener_def)

lemma call_listener_keeps:
  "l \<in> set (listeners w) \<Longrightarrow> CallUnsubscribe (listener_signal l) \<notin> set (body f) \<Longrightarrow>
   l \<in> set (listeners (snd (call_listener f d w)))"
  by (simp add: call_listener_def run_body_keeps)


subsection \<open>The registered arrow function\<close>

lemma closure_accept:
  "s v = SafeParseSuccess d \<Longrightarrow>
   listener_closure (OwnSchema s) f (CustomEvent n v) w = call_listener f d w"
  by (simp add: listener_closure_def)

lemma closure_reject:
  "s v = SafeParseError issues \<Longrightarrow>
   listener_closure (OwnSchema s) f (CustomEvent n v) w =
     (Some (Error (join newline (map message issues))), w)"
  by (simp add: listener_closure_def)

lemma closure_plain_event: "\<not> isCustomEvent e \<Longrightarrow> listener_closure schema f e w = (None, w)"
  by (simp add: listener_closure_def)



subsection \<open>Dispatch\<close>

lemma report_calls [simp]: "calls (report r) = calls (snd r)"
  by (cases r) (auto simp: report_def split: option.splits)

lemma report_listeners [simp]: "listeners (report r) = listeners (snd r)"
  by (cases r) (auto simp: report_def split: option.splits)

lemma report_controllers [simp]: "controllers (report r) = controllers (snd r)"
  by (cases r) (auto simp: report_def split: option.splits)

lemma report_calls_of [simp]: "calls_of h (report r) = calls_of h (snd r)"
  by (simp add: calls_of_def)

lemma report_wf [simp]: "wf_window (report r) = wf_window (snd r)"
  by (simp add: wf_window_def)








lemma inner_invoke_plain_event: "\<not> isCustomEvent e \<Longrightarrow> inner_invoke e ls w = w"
  by (induction ls arbitrary: w) (simp_all add: closure_plain_event report_def)


subsection \<open>The methods\<close>

lemma subscribe_registered:
  "eventSchema this n = Some s \<Longrightarrow>
   subscribe this n f w =
     (Inr (length (controllers w)),
      w\<lparr>controllers := controllers w @ [False],
        listeners := listeners w @
          [\<lparr>listener_type = n, captured_schema = OwnSchema s,
            captured_listener = f, listener_signal = length (controllers w)\<rparr>]\<rparr>)"
  by (simp add: subscribe_unfold get_property_def new_AbortController_def addEventListener_def
      aborted_def nth_append)


lemma publish_accepted:
  "eventSchema this n = Some s \<Longrightarrow> s v = SafeParseSuccess d \<Longrightarrow>
   publish this n v w = (None, dispatchEvent (new_CustomEvent n v) w)"
  by (simp add: publish_unfold get_property_def)

lemma publish_rejected:
  "eventSchema this n = Some s \<Longrightarrow> s v = SafeParseError issues \<Longrightarrow>
   publish this n v w = (Some (Error (join newline (map message issues))), w)"
  by (simp add: publish_unfold get_property_def)

lemma absent_name_raises:
  assumes "eventSchema this n = None" and "n \<notin> set Object_prototype"
  shows "subscribe this n f w = (Inl (no_schema_found n), w)"
    and "publish this n v w = (Some (no_schema_found n), w)"
  using assms by (simp_all add: subscribe_unfold publish_unfold get_property_def)





lemma empty_window_wf: "wf_window empty_window"
  by (simp add: wf_window_def empty_window_def)


lemma exec_calls_this: "fst (exec_calls cs st) = fst st"
  unfolding exec_calls_def by (induction cs arbitrary: st) (simp_all add: exec_call_this)

subsection \<open>Lists of listeners with distinct signals\<close>

lemma filter_other_signals:
  "distinct (map f xs) \<Longrightarrow> x \<in> set xs \<Longrightarrow> filter (\<lambda>y. f y \<noteq> f x) xs = remove1 x xs"
proof (induction xs)
  case Nil
  then show ?case by simp
next
  case (Cons a xs)
  show ?case
  proof (cases "a = x")
    case True
    from Cons.prems True have "f x \<notin> f ` set xs" by simp
    then have "\<forall>y \<in> set xs. f y \<noteq> f x" by (metis imageI)
    then have "filter (\<lambda>y. f y \<noteq> f x) xs = xs" by (simp add: filter_id_conv)
    with True show ?thesis by simp
  next
    case False
    with Cons.prems have "x \<in> set xs" and "f a \<noteq> f x" by auto
    with Cons False show ?thesis by simp
  qed
qed

subsection \<open>An aborted signal stays aborted\<close>

lemma abort_aborted: "aborted k w \<Longrightarrow> aborted k (abort j w)"
  by (auto simp: aborted_def abort_def nth_list_update)

lemma run_body_aborted: "aborted k w \<Longrightarrow> aborted k (snd (run_body ss w))"
  by (induction ss w rule: run_body.induct) (simp_all add: abort_aborted)

lemma call_listener_aborted: "aborted k w \<Longrightarrow> aborted k (snd (call_listener f d w))"
  unfolding call_listener_def by (rule run_body_aborted) (simp add: aborted_def)

lemma closure_aborted: "aborted k w \<Longrightarrow> aborted k (snd (listener_closure schema f e w))"
  by (auto simp: listener_closure_def call_listener_aborted
      split: sum.splits SafeParseReturnType.splits)

lemma report_aborted [simp]: "aborted k (report r) = aborted k (snd r)"
  by (simp add: aborted_def)

lemma inner_invoke_aborted: "aborted k w \<Longrightarrow> aborted k (inner_invoke e ls w)"
  by (induction ls arbitrary: w) (simp_all add: closure_aborted)

lemma subscribe_aborted: "aborted k w \<Longrightarrow> aborted k (snd (subscribe this n f w))"
  by (auto simp: subscribe_unfold new_AbortController_def addEventListener_def aborted_def
      Let_def nth_append)

lemma publish_aborted: "aborted k w \<Longrightarrow> aborted k (snd (publish this n v w))"
  by (auto simp: publish_unfold dispatchEvent_def inner_invoke_aborted Let_def
      split: sum.splits SafeParseReturnType.splits)

lemma exec_call_aborted: "aborted k (snd st) \<Longrightarrow> aborted k (snd (exec_call st c))"
  by (cases st; cases c) (simp_all add: subscribe_aborted publish_aborted unsubscribe_def abort_aborted)

lemma exec_calls_aborted: "aborted k (snd st) \<Longrightarrow> aborted k (snd (exec_calls cs st))"
  unfolding exec_calls_def by (induction cs arbitrary: st) (simp_all add: exec_call_aborted)

lemma unsubscribe_aborted_noop: "aborted k w \<Longrightarrow> unsubscribe k w = w"
  by (simp add: unsubscribe_def abort_def aborted_def)

lemma unsubscribe_makes_aborted: "k < length (controllers w) \<Longrightarrow> aborted k (unsubscribe k w)"
  by (simp add: unsubscribe_def abort_def aborted_def)

subsection \<open>A handler without a listener is not invoked\<close>

lemma closure_subset: "set (listeners (snd (listener_closure schema f e w))) \<subseteq> set (listeners w)"
  by (auto simp: listener_closure_def call_listener_def
      dest: subsetD [OF run_body_subset] split: sum.splits SafeParseReturnType.splits)

lemma inner_invoke_subset: "set (listeners (inner_invoke e ls w)) \<subseteq> set (listeners w)"
proof (induction ls arbitrary: w)
  case Nil
  then show ?case by simp
next
  case (Cons l ls)
  show ?case
    using Cons.IH [of "report (listener_closure (captured_schema l) (captured_listener l) e w)"]
      Cons.IH [of w] closure_subset [of "captured_schema l" "captured_listener l" e w]
    by auto
qed

lemma publish_subset: "set (listeners (snd (publish this n v w))) \<subseteq> set (listeners w)"
  using inner_invoke_subset [of "new_CustomEvent n v" "listeners w" w]
  by (auto simp: publish_unfold dispatchEvent_def Let_def split: sum.splits SafeParseReturnType.splits)


lemma subscribe_calls [simp]: "calls (snd (subscribe this n f w)) = calls w"
  by (simp add: subscribe_unfold new_AbortController_def addEventListener_def Let_def)




subsection \<open>The one listener of a handler\<close>




subsection \<open>The listeners of one bus\<close>

lemma run_body_subset_listeners:
  "l \<in> set (listeners (snd (run_body ss w))) \<Longrightarrow> l \<in> set (listeners w)"
  using run_body_subset [of ss w] by auto

lemma exec_call_listeners_of_bus:
  assumes "listeners_of_bus this w"
  shows "listeners_of_bus this (snd (exec_call (this, w) c))"
proof (cases c)
  case (Subscribe ty f)
  with assms show ?thesis
    by (auto simp: listeners_of_bus_def subscribe_unfold new_AbortController_def
        addEventListener_def Let_def split: if_splits)
next
  case (Publish ty payload)
  with assms show ?thesis
    using publish_subset [of this ty payload w] by (auto simp: listeners_of_bus_def)
next
  case (Unsubscribe k)
  with assms show ?thesis
    using abort_listeners_subset [of k w] by (auto simp: listeners_of_bus_def unsubscribe_def)
qed

lemma exec_calls_listeners_of_bus:
  "listeners_of_bus this w \<Longrightarrow> listeners_of_bus this (snd (exec_calls cs (this, w)))"
proof (induction cs arbitrary: w)
  case Nil
  then show ?case by (simp add: exec_calls_def)
next
  case (Cons c cs)
  have "exec_calls (c # cs) (this, w) = exec_calls cs (this, snd (exec_call (this, w) c))"
    using exec_call_pair [of this w c] by (simp add: exec_calls_def)
  with Cons show ?case by (simp add: exec_call_listeners_of_bus)
qed

lemma empty_window_listeners_of_bus: "listeners_of_bus this empty_window"
  by (simp add: listeners_of_bus_def empty_window_def)

lemma listeners_of_bus_registered:
  "listeners_of_bus this w \<Longrightarrow> eventSchema this n = Some s \<Longrightarrow>
   \<forall>l \<in> set (listeners w). listener_type l = n \<longrightarrow> captured_schema l = OwnSchema s"
  by (auto simp: listeners_of_bus_def get_property_def)

subsection \<open>The concrete registry, evaluated\<close>

lemma example_registry:
  "eventSchema example_bus ''order'' = Some z_number"
  "eventSchema example_bus ''amount'' = Some z_number_max10_even"
  "eventSchema example_bus ''name'' = Some z_string_length"
  "eventSchema example_bus ''logout'' = Some z_void"
  "eventSchema example_bus ''toString'' = None"
  by (simp_all add: example_bus_def example_schema_def)


lemma two_subscribers_eval:
  "two_subscribers =
     \<lparr>listeners =
        [\<lparr>listener_type = ''order'', captured_schema = OwnSchema z_number,
          captured_listener = h1, listener_signal = 0\<rparr>,
         \<lparr>listener_type = ''order'', captured_schema = OwnSchema z_number,
          captured_listener = h2, listener_signal = 1\<rparr>],
      controllers = [False, False], calls = [], reported = []\<rparr>"
  by (simp add: two_subscribers_def after_subscribe_def subscribe_registered example_registry
      empty_window_def)





lemma handler_fields [simp]:
  "hid h1 = 1" "body h1 = []" "hid h2 = 2" "body h2 = []"
  "hid h_cancel = 3" "body h_cancel = [CallUnsubscribe 1]"
  by (simp_all add: h1_def h2_def h_cancel_def)




section \<open>The claims\<close>

subsection \<open>C1: delivery to the subscribed handlers\<close>




subsection \<open>C2: what the dispatched event carries\<close>




subsection \<open>C3: a rejected payload\<close>

text \<open>
  C3. When the schema for a registered name \<open>n\<close> rejects \<open>v\<close>, \<^verbatim>\<open>publish(n, v)\<close> throws an
  \<^verbatim>\<open>Error\<close> whose message is the messages of the issues joined by newlines, and the browser
  state is what it was: nothing was dispatched, no listener ran, no handler was invoked.
\<close>

theorem publish_rejected_raises_and_broadcasts_nothing:
  assumes "eventSchema this n = Some s" and "s v = SafeParseError issues"
  shows "publish this n v w = (Some (Error (join newline (map message issues))), w)"
  using assms by (rule publish_rejected)

text \<open>
  Witness for C3: \<^verbatim>\<open>13\<close> violates both constraints of \<^verbatim>\<open>amount\<close>; the message has one line for
  each, and the two subscribers of \<^verbatim>\<open>order\<close> are left alone.
\<close>

theorem publish_rejected_raises_and_broadcasts_nothing_witness:
  "eventSchema example_bus ''amount'' = Some z_number_max10_even \<and>
   z_number_max10_even (JNumber 13) =
     SafeParseError [ZodIssue ''Number must be less than or equal to 10'',
                     ZodIssue ''Number must be a multiple of 2''] \<and>
   publish example_bus ''amount'' (JNumber 13) two_subscribers =
     (Some (Error (''Number must be less than or equal to 10'' @ [CHR 0x0A] @
                   ''Number must be a multiple of 2'')),
      two_subscribers)"
  using publish_rejected_raises_and_broadcasts_nothing [of example_bus "''amount''"
      z_number_max10_even "JNumber 13"
      "[ZodIssue ''Number must be less than or equal to 10'',
        ZodIssue ''Number must be a multiple of 2'']" two_subscribers]
  by (simp add: example_registry newline_def)

subsection \<open>C4: a name that is not in the registry\<close>

text \<open>
  C4 at the name \<^verbatim>\<open>toString\<close>, which the registry does not have. The read
  \<^verbatim>\<open>this.eventSchema["toString"]\<close> finds the method inherited from \<^verbatim>\<open>Object.prototype\<close>, which
  is truthy, so the test \<^verbatim>\<open>if (!schema)\<close> lets it through: \<^verbatim>\<open>subscribe\<close> registers a listener
  and returns an unsubscribe function instead of throwing, and \<^verbatim>\<open>publish\<close> throws a
  \<^verbatim>\<open>TypeError\<close> from the call of \<^verbatim>\<open>schema.safeParse\<close> instead of the error that no schema was
  found. (For a name that is neither in the registry nor inherited, \<open>absent_name_raises\<close>
  shows that both methods throw that error and leave the browser state alone.)
\<close>

theorem inherited_name_passes_the_schema_check:
  "eventSchema example_bus ''toString'' = None \<and>
   fst (subscribe example_bus ''toString'' h1 empty_window) = Inr 0 \<and>
   map listener_type (listeners (snd (subscribe example_bus ''toString'' h1 empty_window))) =
     [''toString''] \<and>
   publish example_bus ''toString'' (JNumber 2) empty_window = (Some TypeError, empty_window)"
  by (simp add: example_registry subscribe_unfold publish_unfold get_property_def Object_prototype_def
      new_AbortController_def addEventListener_def aborted_def empty_window_def)

subsection \<open>C5: after unsubscribing\<close>




subsection \<open>C6: unsubscribing again\<close>

text \<open>
  C6. Invoking an unsubscribe function a second time changes nothing: the state after two
  invocations in a row is the state after one. The same holds at any later time: once the
  function of an existing subscription has been invoked, invoking it again after any further
  calls on the bus leaves the state as it finds it. (The function is total: it throws nothing.)
\<close>

theorem unsubscribe_idempotent:
  "unsubscribe k (unsubscribe k w) = unsubscribe k w \<and>
   (k < length (controllers w) \<longrightarrow>
      unsubscribe k (snd (exec_calls cs (this, unsubscribe k w))) =
      snd (exec_calls cs (this, unsubscribe k w)))"
proof -
  have "aborted k (snd (exec_calls cs (this, unsubscribe k w)))" if "k < length (controllers w)"
    by (rule exec_calls_aborted) (simp add: unsubscribe_makes_aborted that)
  then show ?thesis
    by (simp add: unsubscribe_aborted_noop) (simp add: unsubscribe_def abort_twice)
qed

text \<open>
  Witness for C6: the first of two subscriptions is unsubscribed twice in a row, and once more
  after a publish and a further subscription.
\<close>

theorem unsubscribe_idempotent_witness:
  "0 < length (controllers two_subscribers) \<and>
   handlers_for ''order'' (unsubscribe 0 two_subscribers) = [2] \<and>
   unsubscribe 0 (unsubscribe 0 two_subscribers) = unsubscribe 0 two_subscribers \<and>
   unsubscribe 0 (snd (exec_calls [Publish ''order'' (JNumber 2), Subscribe ''name'' h1]
                         (example_bus, unsubscribe 0 two_subscribers))) =
   snd (exec_calls [Publish ''order'' (JNumber 2), Subscribe ''name'' h1]
          (example_bus, unsubscribe 0 two_subscribers))"
  using unsubscribe_idempotent [of 0 two_subscribers
      "[Publish ''order'' (JNumber 2), Subscribe ''name'' h1]" example_bus]
  by (simp add: two_subscribers_eval) (simp add: unsubscribe_def abort_def handlers_for_def)

subsection \<open>C7: unsubscribing one listener leaves the others\<close>

text \<open>
  C7. In a browser state as the class produces it (every listener with a signal of its own,
  see \<open>wf_window\<close>, which \<open>exec_calls_wf\<close> shows to hold after any calls), invoking the
  unsubscribe function of one subscription removes exactly the listener of that subscription
  from the listener list: all other listeners, for the same name or another, stay registered in
  their order, none of them counts as removed, and a later event is offered to them as the
  list has them. No other signal changes, and no handler is invoked.
\<close>

theorem unsubscribe_detaches_only_its_listener:
  assumes "wf_window w" and "l \<in> set (listeners w)" and "listener_signal l = k"
  shows "listeners (unsubscribe k w) = remove1 l (listeners w) \<and>
         (\<forall>l' \<in> set (remove1 l (listeners w)). \<not> removed l' (unsubscribe k w)) \<and>
         (\<forall>e. dispatchEvent e (unsubscribe k w) =
              inner_invoke e (remove1 l (listeners w)) (unsubscribe k w)) \<and>
         (\<forall>j. j \<noteq> k \<longrightarrow> aborted j (unsubscribe k w) = aborted j w) \<and>
         calls (unsubscribe k w) = calls w \<and> reported (unsubscribe k w) = reported w"
proof -
  from assms have live: "k < length (controllers w) \<and> \<not> controllers w ! k"
    and d: "distinct (map listener_signal (listeners w))"
    by (auto simp: wf_window_def)
  have "filter (\<lambda>y. listener_signal y \<noteq> listener_signal l) (listeners w) = remove1 l (listeners w)"
    using d assms(2) by (rule filter_other_signals)
  with live assms(3) have ls: "listeners (unsubscribe k w) = remove1 l (listeners w)"
    by (simp add: unsubscribe_def abort_listeners)
  have others: "\<forall>j. j \<noteq> k \<longrightarrow> aborted j (unsubscribe k w) = aborted j w"
    by (auto simp: unsubscribe_def abort_controllers aborted_def)
  show ?thesis
    using others by (simp add: ls removed_def dispatchEvent_def) (simp add: unsubscribe_def)
qed

text \<open>
  Witness for C7: of the two subscriptions to \<^verbatim>\<open>order\<close>, the first is unsubscribed; the second
  stays, its signal not aborted, and it alone receives the next publication.
\<close>

theorem unsubscribe_detaches_only_its_listener_witness:
  "wf_window two_subscribers \<and>
   handlers_for ''order'' two_subscribers = [1, 2] \<and>
   map listener_signal (listeners two_subscribers) = [0, 1] \<and>
   handlers_for ''order'' (unsubscribe 0 two_subscribers) = [2] \<and>
   map listener_signal (listeners (unsubscribe 0 two_subscribers)) = [1] \<and>
   aborted 1 (unsubscribe 0 two_subscribers) = aborted 1 two_subscribers \<and>
   calls (snd (publish example_bus ''order'' (JNumber 2) (unsubscribe 0 two_subscribers))) =
     [(2, JNumber 2)]"
proof -
  let ?l = "\<lparr>listener_type = ''order'', captured_schema = OwnSchema z_number,
             captured_listener = h1, listener_signal = 0\<rparr>"
  have wf: "wf_window two_subscribers"
    by (simp add: two_subscribers_eval wf_window_def)
  have m: "?l \<in> set (listeners two_subscribers)"
    by (simp add: two_subscribers_eval)
  have p: "calls (snd (publish example_bus ''order'' (JNumber 2) (unsubscribe 0 two_subscribers))) =
           [(2, JNumber 2)]"
    by (simp add: two_subscribers_eval unsubscribe_def abort_def
        publish_accepted [of example_bus "''order''" z_number _ _] example_registry
        dispatchEvent_def removed_def closure_accept call_listener_def report_def)
  from unsubscribe_detaches_only_its_listener [OF wf m, of 0]
  show ?thesis
    by (simp add: wf p) (simp add: two_subscribers_eval handlers_for_def)
qed

subsection \<open>C8: a listener that receives a rejected payload\<close>

text \<open>
  C8. Let \<^verbatim>\<open>subscribe(n, h)\<close> succeed for a registered name \<open>n\<close>. The listener it has appended to
  the listener list, run on a \<^verbatim>\<open>CustomEvent\<close> for \<open>n\<close> whose detail the schema rejects, throws an
  \<^verbatim>\<open>Error\<close> whose message is the messages of the issues joined by newlines. It leaves the state
  as it was, so \<open>h\<close> has not been invoked, and the exception leaves the arrow function: nothing
  in the class catches it.
\<close>

theorem listener_raises_on_rejected_payload:
  assumes "eventSchema this n = Some s"
    and "s v = SafeParseError issues"
    and "subscribe this n f w = (Inr k, w1)"
  shows "\<exists>l. listeners w1 = listeners w @ [l] \<and> listener_signal l = k \<and>
           captured_listener l = f \<and>
           (\<forall>w'. listener_closure (captured_schema l) (captured_listener l) (CustomEvent n v) w' =
                  (Some (Error (join newline (map message issues))), w'))"
  using assms by (auto simp: subscribe_registered closure_reject)

text \<open>
  Witness for C8: the listener of a subscription to \<^verbatim>\<open>order\<close> receives the string \<^verbatim>\<open>"x"\<close>, as
  another script on the page may dispatch it.
\<close>

theorem listener_raises_on_rejected_payload_witness:
  "eventSchema example_bus ''order'' = Some z_number \<and>
   z_number (JString ''x'') = SafeParseError [ZodIssue ''Expected number, received string''] \<and>
   subscribe example_bus ''order'' h1 empty_window = (Inr 0, one_subscriber) \<and>
   (\<exists>l. listeners one_subscriber = [l] \<and>
        listener_closure (captured_schema l) (captured_listener l)
          (CustomEvent ''order'' (JString ''x'')) one_subscriber =
        (Some (Error ''Expected number, received string''), one_subscriber))"
proof -
  have s: "subscribe example_bus ''order'' h1 (empty_window :: prim window) =
           (Inr 0, one_subscriber)"
    by (simp add: one_subscriber_def after_subscribe_def subscribe_registered example_registry
        empty_window_def)
  from listener_raises_on_rejected_payload [of example_bus "''order''" z_number "JString ''x''"
      "[ZodIssue ''Expected number, received string'']" h1 empty_window 0 one_subscriber,
      OF _ _ s]
  show ?thesis
    by (simp add: example_registry s) (auto simp: empty_window_def)
qed

subsection \<open>C9: the registry of a bus\<close>

text \<open>
  C9. The registry that the constructor stored is the registry of the bus after any sequence
  of calls of \<^verbatim>\<open>subscribe\<close>, \<^verbatim>\<open>publish\<close> and unsubscribe functions. Each call hands on the object
  that the method returns; that this is the object the method was given is a fact about the
  method bodies (\<open>MeBus_subscribe_this\<close>, \<open>MeBus_publish_this\<close>, \<open>MeBus_unsubscribe_this\<close>).
\<close>

theorem registry_is_never_mutated:
  assumes "new_MeBus global_window schema = Inr this"
  shows "eventSchema (fst (exec_calls cs (this, w))) = schema"
proof -
  have call: "fst (exec_call (b, u) c) = b" for b :: "'a MeBus" and u c
    by (cases c)
       (simp_all add: exec_call.simps MeBus_subscribe_def MeBus_publish_def
          MeBus_unsubscribe_def Let_def
          split: prod.splits sum.splits SafeParseReturnType.splits)
  have calls: "fst (foldl exec_call (b, u) cs) = b" for b :: "'a MeBus" and u
  proof (induction cs arbitrary: u)
    case Nil
    show ?case by simp
  next
    case (Cons c cs)
    have "exec_call (b, u) c = (b, snd (exec_call (b, u) c))"
      using call [of b u c] by (cases "exec_call (b, u) c") simp
    with Cons [of "snd (exec_call (b, u) c)"] show ?case by simp
  qed
  from assms have "eventSchema this = schema"
    by (auto simp: new_MeBus_def split: option.splits)
  then show ?thesis
    by (simp add: exec_calls_def calls)
qed

text \<open>Witness for C9: a bus built in a browser, and five calls, two of which throw.\<close>

theorem registry_is_never_mutated_witness:
  "new_MeBus (Some empty_window) example_schema = Inr example_bus \<and>
   eventSchema (fst (exec_calls
      [Subscribe ''order'' h1, Publish ''order'' (JNumber 2), Unsubscribe 0,
       Publish ''order'' (JString ''x''), Subscribe ''missing'' h2]
      (example_bus, empty_window))) = example_schema"
  using registry_is_never_mutated [of "Some empty_window" example_schema example_bus
      "[Subscribe ''order'' h1, Publish ''order'' (JNumber 2), Unsubscribe 0,
        Publish ''order'' (JString ''x''), Subscribe ''missing'' h2]" empty_window]
  by (simp add: new_MeBus_def example_bus_def)

subsection \<open>C10: events that are not custom events\<close>

text \<open>
  C10. Run on an event that is not a \<^verbatim>\<open>CustomEvent\<close>, the arrow function of any subscription
  returns without throwing and leaves the state as it was: it has validated nothing and has
  not invoked the handler. Dispatching such an event on \<^verbatim>\<open>window\<close> therefore changes nothing.
\<close>

theorem plain_event_is_ignored:
  assumes "\<not> isCustomEvent e"
  shows "listener_closure schema f e w = (None, w) \<and> dispatchEvent e w = w"
  using assms by (simp add: closure_plain_event dispatchEvent_def inner_invoke_plain_event)

text \<open>Witness for C10: a plain \<^verbatim>\<open>Event\<close> of type \<^verbatim>\<open>order\<close> meets two subscribers of \<^verbatim>\<open>order\<close>.\<close>

theorem plain_event_is_ignored_witness:
  "isCustomEvent (Event ''order'' :: prim event) = False \<and>
   listener_closure (OwnSchema z_number) h1 (Event ''order'') two_subscribers =
     (None, two_subscribers) \<and>
   dispatchEvent (Event ''order'') two_subscribers = two_subscribers"
  using plain_event_is_ignored [of "Event ''order''" "OwnSchema z_number" h1 two_subscribers]
  by simp

end
